theory Spec2Isabelle
  imports Main "HOL-Library.Finite_Map" "HOL-Library.Word"
begin

section \<open>Data model of the gateway (gateway.go)\<close>

text \<open>
  The gateway holds pointers to gates, a gate holds pointers to proxies, and a proxy
  is mutated in place while it is registered. Pointers are therefore indices into an
  explicit store: a \<open>gate_ref\<close> indexes the list of gate objects, a \<open>proxy_ref\<close> the
  list of proxy objects. A reference outside the store is Go's nil pointer; using it
  panics, which the model returns as \<open>NilPointerPanic\<close>.
\<close>

type_synonym gate_ref = nat
type_synonym proxy_ref = nat

text \<open>
  The first three errors are the ones gateway.go returns by name. The next three are the
  failures of the gate and proxy operations that gateway.go calls and passes on
  (duplicate hostname, invalid configuration, gate construction).
\<close>

datatype error =
    ErrGateSignatureAlreadyRegistered
  | ErrNoGateInGateway
  | ErrGateDoesNotExist
  | ErrDuplicateHostname
  | ErrValidation
  | ErrGateConstruction
  | NilPointerPanic

text \<open>Log sinks: \<open>io.MultiWriter\<close> fans out to a list of writers.\<close>

datatype Writer = Sink nat | MultiWriter "Writer list"

datatype Logger = Logger (logger_fields: "(string \<times> string) list") (logger_writer: Writer)

definition Output :: "Logger \<Rightarrow> Writer \<Rightarrow> Logger" where
  "Output l wr = Logger (logger_fields l) wr"

definition log_Logger :: Logger where
  "log_Logger = Logger [] (Sink 0)"

text \<open>
  Modelled from the spec: the type \<open>ProxyConfig\<close> is declared outside gateway.go, which
  reads only its field \<open>ListenTo\<close>. Section 6 of the specification gives a route
  configuration a target listening address, a virtual hostname and backend-target
  parameters; the latter are kept as one opaque field.
\<close>

record ProxyConfig =
  DomainName :: string
  ListenTo :: string
  Target :: string

text \<open>
  Modelled from the spec: the struct \<open>Proxy\<close> is declared outside gateway.go, which reads
  \<open>proxy.listenTo\<close> and \<open>proxy.domainName\<close>. Section 3 gives a route its address, its
  hostname and its configuration.
\<close>

record Proxy =
  listenTo :: string
  domainName :: string
  config :: ProxyConfig

text \<open>
  Modelled from the spec: the struct \<open>Gate\<close> is declared outside gateway.go, which reads
  \<open>gate.listenTo\<close>. Section 3 gives a multiplexer its address, its routes keyed by
  hostname and whether it is listening; section 4.3 gives it the logging fan-out that
  the gateway pushes to it.
\<close>

record Gate =
  listenTo :: string
  proxies :: "(string, proxy_ref) fmap"
  listening :: bool
  logger :: Logger
  loggerOutputs :: "Writer list"

text \<open>The struct \<open>Gateway\<close>; the wait group is its counter.\<close>

record Gateway =
  gates :: "(string, gate_ref) fmap"
  wg :: nat
  running :: bool
  logger :: Logger
  loggerOutputs :: "Writer list"

text \<open>
  The gateway together with the objects its pointers reach, and the gates for which
  \<open>AddGate\<close> has started a serving goroutine.
\<close>

record World = Gateway +
  gate_heap :: "Gate list"
  proxy_heap :: "Proxy list"
  goroutines :: "gate_ref list"

definition deref_gate :: "World \<Rightarrow> gate_ref \<Rightarrow> Gate option" where
  "deref_gate w r = (if r < length (gate_heap w) then Some (gate_heap w ! r) else None)"

definition deref_proxy :: "World \<Rightarrow> proxy_ref \<Rightarrow> Proxy option" where
  "deref_proxy w r = (if r < length (proxy_heap w) then Some (proxy_heap w ! r) else None)"

definition store_gate :: "gate_ref \<Rightarrow> Gate \<Rightarrow> World \<Rightarrow> World" where
  "store_gate r G w = w\<lparr>gate_heap := (gate_heap w)[r := G]\<rparr>"

definition store_proxy :: "proxy_ref \<Rightarrow> Proxy \<Rightarrow> World \<Rightarrow> World" where
  "store_proxy r P w = w\<lparr>proxy_heap := (proxy_heap w)[r := P]\<rparr>"

text \<open>
  What gateway.go leaves to code outside it and the specification leaves open: which
  configurations pass the proxy's validation, and for which addresses a gate can be
  constructed.
\<close>

record Env =
  config_valid :: "ProxyConfig \<Rightarrow> bool"
  address_valid :: "string \<Rightarrow> bool"

definition NewGateway :: World where
  "NewGateway = \<lparr>gates = fmempty, wg = 0, running = False, logger = log_Logger,
     loggerOutputs = [], gate_heap = [], proxy_heap = [], goroutines = []\<rparr>"

section \<open>Operations of the proxy and of the gate\<close>

text \<open>
  Modelled from the spec: \<open>Proxy.updateConfig\<close> is not in gateway.go. Section 4.1:
  it validates the new configuration, fails with a validation error and changes no field
  if it is invalid, and otherwise replaces address, hostname and configuration as one unit.
\<close>

definition updateConfig :: "Env \<Rightarrow> proxy_ref \<Rightarrow> ProxyConfig \<Rightarrow> World \<Rightarrow> error option \<times> World" where
  "updateConfig env proxy cfg w =
     (case deref_proxy w proxy of
        None \<Rightarrow> (Some NilPointerPanic, w)
      | Some P \<Rightarrow>
          if \<not> config_valid env cfg then (Some ErrValidation, w)
          else (None, store_proxy proxy
                  (P\<lparr>Proxy.listenTo := ListenTo cfg, domainName := DomainName cfg, config := cfg\<rparr>) w))"

text \<open>
  Modelled from the spec: \<open>NewGate\<close> is not in gateway.go. Section 4.3 (\<open>add_route\<close>):
  a new multiplexer is created for the address; construction can fail, for example on an
  invalid address. The new gate has no routes and is not listening.
\<close>

definition NewGate :: "Env \<Rightarrow> string \<Rightarrow> World \<Rightarrow> (error + gate_ref) \<times> World" where
  "NewGate env addr w =
     (if \<not> address_valid env addr then (Inl ErrGateConstruction, w)
      else (Inr (length (gate_heap w)),
            w\<lparr>gate_heap := gate_heap w @
               [\<lparr>Gate.listenTo = addr, proxies = fmempty, listening = False,
                 Gate.logger = log_Logger, Gate.loggerOutputs = []\<rparr>]\<rparr>))"

text \<open>
  Modelled from the spec: \<open>Gate.AddLoggerOutput\<close> and \<open>Gate.overrideLogger\<close> are not in
  gateway.go. Section 4.3: the gateway pushes an added output and an overriding logger to
  each gate; they are taken to act on the gate as \<open>Gateway.AddLoggerOutput\<close> and
  \<open>Gateway.overrideLogger\<close> act on the gateway. The routes of a gate log through the
  gate's logger, so a proxy has no logger of its own here.
\<close>

definition Gate_AddLoggerOutput :: "Writer \<Rightarrow> Gate \<Rightarrow> Gate" where
  "Gate_AddLoggerOutput wr G =
     (let outs = Gate.loggerOutputs G @ [wr]
      in G\<lparr>Gate.loggerOutputs := outs, Gate.logger := Output (Gate.logger G) (MultiWriter outs)\<rparr>)"

definition Gate_overrideLogger :: "Logger \<Rightarrow> Gate \<Rightarrow> Gate" where
  "Gate_overrideLogger l G = G\<lparr>Gate.logger := Output l (MultiWriter (Gate.loggerOutputs G))\<rparr>"

text \<open>
  Modelled from the spec: \<open>Gate.Close\<close> is not in gateway.go. Section 4.2: it stops
  accepting and is idempotent.
\<close>

definition Gate_Close :: "gate_ref \<Rightarrow> World \<Rightarrow> error option \<times> World" where
  "Gate_Close gate w =
     (case deref_gate w gate of
        None \<Rightarrow> (Some NilPointerPanic, w)
      | Some G \<Rightarrow> (None, store_gate gate (G\<lparr>listening := False\<rparr>) w))"

text \<open>
  Modelled from the spec: \<open>Gate.AddProxy\<close> is not in gateway.go. Section 4.2
  (\<open>add_route\<close>): it fails with a duplicate-hostname error if a route with the same
  hostname already exists, and otherwise inserts the route under its hostname.
\<close>

definition Gate_AddProxy :: "gate_ref \<Rightarrow> proxy_ref \<Rightarrow> World \<Rightarrow> error option \<times> World" where
  "Gate_AddProxy gate proxy w =
     (case deref_gate w gate of
        None \<Rightarrow> (Some NilPointerPanic, w)
      | Some G \<Rightarrow>
          (case deref_proxy w proxy of
             None \<Rightarrow> (Some NilPointerPanic, w)
           | Some P \<Rightarrow>
               (case fmlookup (proxies G) (domainName P) of
                  Some other \<Rightarrow> (Some ErrDuplicateHostname, w)
                | None \<Rightarrow>
                    (None, store_gate gate
                       (G\<lparr>proxies := fmupd (domainName P) proxy (proxies G)\<rparr>) w))))"

text \<open>
  Modelled from the spec: \<open>Gate.RemoveProxy\<close> is not in gateway.go. Section 4.2
  (\<open>remove_route\<close>): a no-op if the hostname is absent, otherwise the route is detached.
\<close>

definition Gate_RemoveProxy :: "gate_ref \<Rightarrow> string \<Rightarrow> World \<Rightarrow> error option \<times> World" where
  "Gate_RemoveProxy gate name w =
     (case deref_gate w gate of
        None \<Rightarrow> (Some NilPointerPanic, w)
      | Some G \<Rightarrow>
          (case fmlookup (proxies G) name of
             None \<Rightarrow> (None, w)
           | Some proxy \<Rightarrow> (None, store_gate gate (G\<lparr>proxies := fmdrop name (proxies G)\<rparr>) w)))"

text \<open>
  Modelled from the spec: \<open>Gate.UpdateProxy\<close> is not in gateway.go. Section 4.2
  (\<open>update_route\<close>): it applies the route's \<open>update_config\<close> and never moves a route to
  another gate.
\<close>

definition Gate_UpdateProxy ::
  "Env \<Rightarrow> gate_ref \<Rightarrow> proxy_ref \<Rightarrow> ProxyConfig \<Rightarrow> World \<Rightarrow> error option \<times> World" where
  "Gate_UpdateProxy env gate proxy cfg w =
     (case deref_gate w gate of
        None \<Rightarrow> (Some NilPointerPanic, w)
      | Some G \<Rightarrow> updateConfig env proxy cfg w)"

section \<open>Operations of the gateway (gateway.go)\<close>

text \<open>
  \<open>AddGate\<close>, lines 60-88. When the gateway is running, the call adds one to the wait
  group and starts a goroutine serving the gate; what that goroutine does later is not
  part of the call.
\<close>

definition AddGate :: "gate_ref \<Rightarrow> World \<Rightarrow> error option \<times> World" where
  "AddGate gate w =
     (case deref_gate w gate of
        None \<Rightarrow> (Some NilPointerPanic, w)
      | Some G \<Rightarrow>
          (case fmlookup (gates w) (Gate.listenTo G) of
             Some other \<Rightarrow> (Some ErrGateSignatureAlreadyRegistered, w)
           | None \<Rightarrow>
               (let G1 = Gate_AddLoggerOutput (MultiWriter (Gateway.loggerOutputs w)) G;
                    G2 = Gate_overrideLogger (Gateway.logger w) G1;
                    w1 = store_gate gate G2 w;
                    w2 = w1\<lparr>gates := fmupd (Gate.listenTo G) gate (gates w1)\<rparr>
                in if \<not> running w2 then (None, w2)
                   else (None, w2\<lparr>wg := wg w2 + 1, goroutines := goroutines w2 @ [gate]\<rparr>))))"

text \<open>\<open>RemoveGate\<close>, lines 92-100.\<close>

definition RemoveGate :: "string \<Rightarrow> World \<Rightarrow> error option \<times> World" where
  "RemoveGate addr w =
     (case fmlookup (gates w) addr of
        None \<Rightarrow> (None, w)
      | Some gate \<Rightarrow>
          (case Gate_Close gate w of
             (Some err, w1) \<Rightarrow> (Some err, w1)
           | (None, w1) \<Rightarrow> (None, w1\<lparr>gates := fmdrop addr (gates w1)\<rparr>)))"

text \<open>\<open>AddProxy\<close>, lines 125-145.\<close>

definition AddProxy :: "Env \<Rightarrow> proxy_ref \<Rightarrow> World \<Rightarrow> error option \<times> World" where
  "AddProxy env proxy w =
     (case deref_proxy w proxy of
        None \<Rightarrow> (Some NilPointerPanic, w)
      | Some P \<Rightarrow>
          (case fmlookup (gates w) (Proxy.listenTo P) of
             Some gate \<Rightarrow> Gate_AddProxy gate proxy w
           | None \<Rightarrow>
               (case NewGate env (Proxy.listenTo P) w of
                  (Inl err, w1) \<Rightarrow> (Some err, w1)
                | (Inr gate, w1) \<Rightarrow>
                    (case AddGate gate w1 of
                       (Some err, w2) \<Rightarrow> (Some err, w2)
                     | (None, w2) \<Rightarrow> Gate_AddProxy gate proxy w2))))"

text \<open>\<open>RemoveProxy\<close>, lines 149-156.\<close>

definition RemoveProxy :: "string \<Rightarrow> string \<Rightarrow> World \<Rightarrow> error option \<times> World" where
  "RemoveProxy addr name w =
     (case fmlookup (gates w) addr of
        None \<Rightarrow> (None, w)
      | Some gate \<Rightarrow> Gate_RemoveProxy gate name w)"

text \<open>
  \<open>ListenAndServe\<close>, lines 159-183. Lines 168-180 start one goroutine per gate and wait
  for all of them; what the gates do while they serve is the argument \<open>serve_gates\<close>,
  which gives the state when the last goroutine has finished, or \<open>None\<close> if the wait never
  ends. The result \<open>None\<close> of the call is the call that never returns.
\<close>

definition ListenAndServe ::
  "(World \<Rightarrow> World option) \<Rightarrow> World \<Rightarrow> (error option \<times> World) option" where
  "ListenAndServe serve_gates w =
     (if fcard (fmdom (gates w)) \<le> 0 then Some (Some ErrNoGateInGateway, w)
      else (case serve_gates (w\<lparr>running := True\<rparr>) of
              None \<Rightarrow> None
            | Some w1 \<Rightarrow> Some (None, w1\<lparr>running := False\<rparr>)))"

text \<open>\<open>UpdateProxy\<close>, lines 213-252.\<close>

definition UpdateProxy :: "Env \<Rightarrow> proxy_ref \<Rightarrow> ProxyConfig \<Rightarrow> World \<Rightarrow> error option \<times> World" where
  "UpdateProxy env proxy cfg w =
     (case deref_proxy w proxy of
        None \<Rightarrow> (Some NilPointerPanic, w)
      | Some P \<Rightarrow>
          if ListenTo cfg = Proxy.listenTo P then
            (case fmlookup (gates w) (Proxy.listenTo P) of
               None \<Rightarrow> (Some ErrGateDoesNotExist, w)
             | Some gate \<Rightarrow> Gate_UpdateProxy env gate proxy cfg w)
          else
            (case fmlookup (gates w) (ListenTo cfg) of
               None \<Rightarrow>
                 (let oldAddr = Proxy.listenTo P; oldDomainName = domainName P
                  in case updateConfig env proxy cfg w of
                       (Some err, w1) \<Rightarrow> (Some err, w1)
                     | (None, w1) \<Rightarrow>
                         (case AddProxy env proxy w1 of
                            (Some err, w2) \<Rightarrow> (Some err, w2)
                          | (None, w2) \<Rightarrow> RemoveProxy oldAddr oldDomainName w2))
             | Some gate \<Rightarrow>
                 (let oldDomainName = domainName P
                  in case updateConfig env proxy cfg w of
                       (Some err, w1) \<Rightarrow> (Some err, w1)
                     | (None, w1) \<Rightarrow>
                         (case Gate_AddProxy gate proxy w1 of
                            (Some err, w2) \<Rightarrow> (Some err, w2)
                          | (None, w2) \<Rightarrow> Gate_RemoveProxy gate oldDomainName w2))))"

text \<open>
  \<open>onConfigChange\<close>, lines 192-211. The event kind is fsnotify's bit mask, in which
  \<open>Write\<close> is the second bit. \<open>LoadProxyConfig\<close> is not in gateway.go and reads the
  configuration source, so it is the argument \<open>load\<close>. An error of the load or of
  \<open>UpdateProxy\<close> is logged and not returned; only a panic leaves the handler.
\<close>

record Event =
  Name :: string
  Op :: "32 word"

definition Write :: "32 word" where
  "Write = 2"

definition onConfigChange ::
  "Env \<Rightarrow> ('v \<Rightarrow> error + ProxyConfig) \<Rightarrow> proxy_ref \<Rightarrow> 'v \<Rightarrow> Event \<Rightarrow> World \<Rightarrow> error option \<times> World" where
  "onConfigChange env load proxy vpr ev w =
     (if Op ev \<noteq> Write then (None, w)
      else (case load vpr of
              Inl err \<Rightarrow> (None, w)
            | Inr cfg \<Rightarrow>
                (case UpdateProxy env proxy cfg w of
                   (Some NilPointerPanic, w1) \<Rightarrow> (Some NilPointerPanic, w1)
                 | (other, w1) \<Rightarrow> (None, w1))))"

text \<open>
  The route that a connection to address \<open>addr\<close> asking for hostname \<open>name\<close> is
  dispatched to: the gateway's gate for the address, then the gate's proxy for the hostname.
\<close>

definition route_at :: "World \<Rightarrow> string \<Rightarrow> string \<Rightarrow> proxy_ref option" where
  "route_at w addr name =
     (case fmlookup (gates w) addr of
        None \<Rightarrow> None
      | Some gate \<Rightarrow>
          (case deref_gate w gate of
             None \<Rightarrow> None
           | Some G \<Rightarrow> fmlookup (proxies G) name))"

text \<open>
  Every gate pointer in the gateway's map points at a gate object. Go's map holds only
  pointers that \<open>AddGate\<close> has dereferenced, so this holds of every gateway of the program.
\<close>

definition gates_valid :: "World \<Rightarrow> bool" where
  "gates_valid w = fmpred (\<lambda>addr gate. gate < length (gate_heap w)) (gates w)"

section \<open>The states a call visits\<close>

text \<open>
  The same operations, returning with the error the list of states that the call
  produces one after the other, one for each mutation in the order of the source. The
  lemmas below show that the error and the last state are those of the operation itself.
\<close>

definition AddGate_states :: "gate_ref \<Rightarrow> World \<Rightarrow> error option \<times> World list" where
  "AddGate_states gate w =
     (case deref_gate w gate of
        None \<Rightarrow> (Some NilPointerPanic, [])
      | Some G \<Rightarrow>
          (case fmlookup (gates w) (Gate.listenTo G) of
             Some other \<Rightarrow> (Some ErrGateSignatureAlreadyRegistered, [])
           | None \<Rightarrow>
               (let G1 = Gate_AddLoggerOutput (MultiWriter (Gateway.loggerOutputs w)) G;
                    w1 = store_gate gate G1 w;
                    G2 = Gate_overrideLogger (Gateway.logger w1) G1;
                    w2 = store_gate gate G2 w1;
                    w3 = w2\<lparr>gates := fmupd (Gate.listenTo G) gate (gates w2)\<rparr>;
                    w4 = w3\<lparr>wg := wg w3 + 1\<rparr>;
                    w5 = w4\<lparr>goroutines := goroutines w4 @ [gate]\<rparr>
                in if \<not> running w3 then (None, [w1, w2, w3])
                   else (None, [w1, w2, w3, w4, w5]))))"

definition AddProxy_states :: "Env \<Rightarrow> proxy_ref \<Rightarrow> World \<Rightarrow> error option \<times> World list" where
  "AddProxy_states env proxy w =
     (case deref_proxy w proxy of
        None \<Rightarrow> (Some NilPointerPanic, [])
      | Some P \<Rightarrow>
          (case fmlookup (gates w) (Proxy.listenTo P) of
             Some gate \<Rightarrow>
               (case Gate_AddProxy gate proxy w of (err, w1) \<Rightarrow> (err, [w1]))
           | None \<Rightarrow>
               (case NewGate env (Proxy.listenTo P) w of
                  (Inl err, w1) \<Rightarrow> (Some err, [w1])
                | (Inr gate, w1) \<Rightarrow>
                    (case AddGate_states gate w1 of
                       (Some err, ws) \<Rightarrow> (Some err, w1 # ws)
                     | (None, ws) \<Rightarrow>
                         (case Gate_AddProxy gate proxy (last (w1 # ws)) of
                            (err, w3) \<Rightarrow> (err, w1 # ws @ [w3]))))))"

definition UpdateProxy_states ::
  "Env \<Rightarrow> proxy_ref \<Rightarrow> ProxyConfig \<Rightarrow> World \<Rightarrow> error option \<times> World list" where
  "UpdateProxy_states env proxy cfg w =
     (case deref_proxy w proxy of
        None \<Rightarrow> (Some NilPointerPanic, [])
      | Some P \<Rightarrow>
          if ListenTo cfg = Proxy.listenTo P then
            (case fmlookup (gates w) (Proxy.listenTo P) of
               None \<Rightarrow> (Some ErrGateDoesNotExist, [])
             | Some gate \<Rightarrow>
                 (case Gate_UpdateProxy env gate proxy cfg w of (err, w1) \<Rightarrow> (err, [w1])))
          else
            (case fmlookup (gates w) (ListenTo cfg) of
               None \<Rightarrow>
                 (let oldAddr = Proxy.listenTo P; oldDomainName = domainName P
                  in case updateConfig env proxy cfg w of
                       (Some err, w1) \<Rightarrow> (Some err, [w1])
                     | (None, w1) \<Rightarrow>
                         (case AddProxy_states env proxy w1 of
                            (Some err, ws) \<Rightarrow> (Some err, w1 # ws)
                          | (None, ws) \<Rightarrow>
                              (case RemoveProxy oldAddr oldDomainName (last (w1 # ws)) of
                                 (err, w3) \<Rightarrow> (err, w1 # ws @ [w3]))))
             | Some gate \<Rightarrow>
                 (let oldDomainName = domainName P
                  in case updateConfig env proxy cfg w of
                       (Some err, w1) \<Rightarrow> (Some err, [w1])
                     | (None, w1) \<Rightarrow>
                         (case Gate_AddProxy gate proxy w1 of
                            (Some err, w2) \<Rightarrow> (Some err, [w1, w2])
                          | (None, w2) \<Rightarrow>
                              (case Gate_RemoveProxy gate oldDomainName w2 of
                                 (err, w3) \<Rightarrow> (err, [w1, w2, w3]))))))"

section \<open>Example configurations\<close>

text \<open>
  An environment in which a configuration needs a hostname and a gate needs an address,
  and the gateway of the specification's example: the proxy \<open>a.example.com\<close> behind a gate
  on \<open>:25565\<close>, alone or beside an empty gate on \<open>:25566\<close>, or beside a gate on
  \<open>:25566\<close> that serves \<open>b.example.com\<close>.
\<close>

definition env0 :: Env where
  "env0 = \<lparr>config_valid = (\<lambda>cfg. DomainName cfg \<noteq> []), address_valid = (\<lambda>addr. addr \<noteq> [])\<rparr>"

definition cfg_a :: ProxyConfig where
  "cfg_a = \<lparr>DomainName = ''a.example.com'', ListenTo = '':25565'', Target = ''x''\<rparr>"

definition cfg_b :: ProxyConfig where
  "cfg_b = \<lparr>DomainName = ''b.example.com'', ListenTo = '':25566'', Target = ''y''\<rparr>"

definition proxy_a :: Proxy where
  "proxy_a = \<lparr>Proxy.listenTo = '':25565'', domainName = ''a.example.com'', config = cfg_a\<rparr>"

definition proxy_b :: Proxy where
  "proxy_b = \<lparr>Proxy.listenTo = '':25566'', domainName = ''b.example.com'', config = cfg_b\<rparr>"

definition gate_on :: "string \<Rightarrow> (string, proxy_ref) fmap \<Rightarrow> Gate" where
  "gate_on addr ps = \<lparr>Gate.listenTo = addr, proxies = ps, listening = False,
     Gate.logger = log_Logger, Gate.loggerOutputs = []\<rparr>"

definition world_a :: World where
  "world_a = NewGateway
     \<lparr>gates := fmupd '':25565'' 0 fmempty,
      gate_heap := [gate_on '':25565'' (fmupd ''a.example.com'' 0 fmempty)],
      proxy_heap := [proxy_a]\<rparr>"

definition world_ab :: World where
  "world_ab = NewGateway
     \<lparr>gates := fmupd '':25566'' 1 (fmupd '':25565'' 0 fmempty),
      gate_heap := [gate_on '':25565'' (fmupd ''a.example.com'' 0 fmempty),
                    gate_on '':25566'' fmempty],
      proxy_heap := [proxy_a]\<rparr>"

definition world_ab2 :: World where
  "world_ab2 = NewGateway
     \<lparr>gates := fmupd '':25566'' 1 (fmupd '':25565'' 0 fmempty),
      gate_heap := [gate_on '':25565'' (fmupd ''a.example.com'' 0 fmempty),
                    gate_on '':25566'' (fmupd ''b.example.com'' 1 fmempty)],
      proxy_heap := [proxy_a, proxy_b]\<rparr>"

definition running_empty :: World where
  "running_empty = NewGateway\<lparr>running := True\<rparr>"

definition never_returns :: "World \<Rightarrow> World option" where
  "never_returns w = None"

definition cfg_moved :: ProxyConfig where
  "cfg_moved = \<lparr>DomainName = ''a.example.com'', ListenTo = '':25566'', Target = ''x''\<rparr>"

definition cfg_third :: ProxyConfig where
  "cfg_third = \<lparr>DomainName = ''a.example.com'', ListenTo = '':25567'', Target = ''x''\<rparr>"

text \<open>
  The state that \<open>UpdateProxy\<close> returns when the proxy of \<open>world_ab\<close> is moved to
  \<open>:25566\<close>: the proxy reports \<open>:25566\<close> and is registered on \<open>:25565\<close> only.
\<close>

definition world_stale :: World where
  "world_stale = NewGateway
     \<lparr>gates := fmupd '':25566'' 1 (fmupd '':25565'' 0 fmempty),
      gate_heap := [gate_on '':25565'' (fmupd ''a.example.com'' 0 fmempty),
                    gate_on '':25566'' fmempty],
      proxy_heap := [\<lparr>Proxy.listenTo = '':25566'', domainName = ''a.example.com'',
                       config = cfg_moved\<rparr>]\<rparr>"

definition cfg_renamed :: ProxyConfig where
  "cfg_renamed = \<lparr>DomainName = ''c.example.com'', ListenTo = '':25565'', Target = ''x''\<rparr>"

definition world_unregistered :: World where
  "world_unregistered = world_a\<lparr>gate_heap := gate_heap world_a @ [gate_on '':25566'' fmempty]\<rparr>"

definition world_p :: World where
  "world_p = NewGateway\<lparr>proxy_heap := [proxy_a]\<rparr>"

definition removed_event :: Event where
  "removed_event = \<lparr>Name = ''a.yml'', Op = 4\<rparr>"

definition load_b :: "unit \<Rightarrow> error + ProxyConfig" where
  "load_b v = Inr cfg_b"

section \<open>Closed forms used in the proofs\<close>

text \<open>
  The proxy after a successful \<open>updateConfig\<close>, and the state after \<open>AddProxy\<close> has
  created a gate for the proxy's address, registered it and added the proxy to it.
\<close>

definition new_identity :: "ProxyConfig \<Rightarrow> Proxy \<Rightarrow> Proxy" where
  "new_identity cfg P =
     P\<lparr>Proxy.listenTo := ListenTo cfg, domainName := DomainName cfg, config := cfg\<rparr>"

definition placed_in_new_gate :: "proxy_ref \<Rightarrow> Proxy \<Rightarrow> World \<Rightarrow> World" where
  "placed_in_new_gate proxy P w =
     w\<lparr>gates := fmupd (Proxy.listenTo P) (length (gate_heap w)) (gates w),
       gate_heap := gate_heap w @
         [Gate_overrideLogger (Gateway.logger w)
            (Gate_AddLoggerOutput (MultiWriter (Gateway.loggerOutputs w))
               \<lparr>Gate.listenTo = Proxy.listenTo P, proxies = fmempty, listening = False,
                 Gate.logger = log_Logger, Gate.loggerOutputs = []\<rparr>)
            \<lparr>proxies := fmupd (domainName P) proxy fmempty\<rparr>],
       wg := (if running w then wg w + 1 else wg w),
       goroutines := (if running w then goroutines w @ [length (gate_heap w)] else goroutines w)\<rparr>"

section \<open>Effects of the single operations\<close>

lemmas eval_defs = UpdateProxy_def updateConfig_def AddProxy_def NewGate_def AddGate_def
  Gate_AddProxy_def RemoveProxy_def Gate_RemoveProxy_def Gate_UpdateProxy_def
  deref_gate_def deref_proxy_def store_gate_def store_proxy_def route_at_def
  Gate_AddLoggerOutput_def Gate_overrideLogger_def Let_def
  world_a_def world_ab_def world_ab2_def NewGateway_def gate_on_def
  proxy_a_def proxy_b_def cfg_a_def cfg_b_def cfg_moved_def env0_def

lemma Gate_overrideLogger_fields [simp]:
  "proxies (Gate_overrideLogger l G) = proxies G"
  "Gate.listenTo (Gate_overrideLogger l G) = Gate.listenTo G"
  by (simp_all add: Gate_overrideLogger_def)

lemma Gate_AddLoggerOutput_fields [simp]:
  "proxies (Gate_AddLoggerOutput wr G) = proxies G"
  "Gate.listenTo (Gate_AddLoggerOutput wr G) = Gate.listenTo G"
  by (simp_all add: Gate_AddLoggerOutput_def Let_def)

lemma gates_updateConfig: "gates (snd (updateConfig env proxy cfg w)) = gates w"
  by (simp add: updateConfig_def store_proxy_def split: option.splits)

lemma gates_Gate_UpdateProxy: "gates (snd (Gate_UpdateProxy env gate proxy cfg w)) = gates w"
  by (simp add: Gate_UpdateProxy_def gates_updateConfig split: option.splits)

lemma updateConfig_cases:
  assumes "deref_proxy w proxy = Some P"
  shows "updateConfig env proxy cfg w =
           (if config_valid env cfg then (None, store_proxy proxy (new_identity cfg P) w)
            else (Some ErrValidation, w))"
  using assms by (simp add: updateConfig_def new_identity_def)

lemma store_proxy_simps [simp]:
  "gates (store_proxy r P w) = gates w"
  "gate_heap (store_proxy r P w) = gate_heap w"
  "running (store_proxy r P w) = running w"
  "deref_gate (store_proxy r P w) g = deref_gate w g"
  by (simp_all add: store_proxy_def deref_gate_def)

lemma route_at_store_proxy [simp]:
  "route_at (store_proxy r P w) a h = route_at w a h"
  by (simp add: route_at_def cong: option.case_cong)

lemma deref_store_proxy [simp]:
  "deref_proxy w r = Some P \<Longrightarrow> deref_proxy (store_proxy r P' w) r = Some P'"
  by (simp add: store_proxy_def deref_proxy_def split: if_splits)

lemma AddProxy_new_gate:
  assumes "deref_proxy w proxy = Some P" and "fmlookup (gates w) (Proxy.listenTo P) = None"
  shows "AddProxy env proxy w =
           (if address_valid env (Proxy.listenTo P) then (None, placed_in_new_gate proxy P w)
            else (Some ErrGateConstruction, w))"
  using assms
  by (auto simp add: AddProxy_def NewGate_def AddGate_def Gate_AddProxy_def deref_gate_def
        deref_proxy_def store_gate_def Let_def placed_in_new_gate_def split: if_splits)

lemma route_at_placed_new:
  "route_at (placed_in_new_gate proxy P w) (Proxy.listenTo P) (domainName P) = Some proxy"
  by (simp add: placed_in_new_gate_def route_at_def deref_gate_def)

lemma route_at_placed_old:
  assumes "route_at w a h = Some p" and "a \<noteq> Proxy.listenTo P"
  shows "route_at (placed_in_new_gate proxy P w) a h = Some p"
  using assms
  by (auto simp add: placed_in_new_gate_def route_at_def deref_gate_def nth_append
        split: option.splits if_splits)

lemma deref_proxy_placed [simp]:
  "deref_proxy (placed_in_new_gate proxy P w) r = deref_proxy w r"
  by (simp add: placed_in_new_gate_def deref_proxy_def)


lemma route_at_Gate_AddProxy:
  assumes "Gate_AddProxy gate proxy w = (None, w2)" and "deref_proxy w proxy = Some Q"
  shows "route_at w2 a h =
           (if fmlookup (gates w) a = Some gate \<and> h = domainName Q then Some proxy
            else route_at w a h)"
  using assms
  by (auto simp add: Gate_AddProxy_def route_at_def deref_gate_def store_gate_def
        nth_list_update split: option.splits if_splits)

lemma route_at_Gate_AddProxy_kept:
  assumes "route_at w a h = Some p"
  shows "route_at (snd (Gate_AddProxy gate proxy w)) a h = Some p"
  using assms
  by (auto simp add: Gate_AddProxy_def route_at_def deref_gate_def store_gate_def
        nth_list_update split: option.splits if_splits)

lemma route_at_Gate_RemoveProxy:
  "route_at (snd (Gate_RemoveProxy gate name w)) a h =
     (if fmlookup (gates w) a = Some gate \<and> h = name then None else route_at w a h)"
  by (auto simp add: Gate_RemoveProxy_def route_at_def deref_gate_def store_gate_def
        nth_list_update split: option.splits if_splits)

lemma route_at_RemoveProxy:
  "route_at (snd (RemoveProxy addr name w)) a h =
     (if fmlookup (gates w) a = fmlookup (gates w) addr \<and> fmlookup (gates w) addr \<noteq> None \<and> h = name
      then None else route_at w a h)"
  by (auto simp add: RemoveProxy_def route_at_Gate_RemoveProxy split: option.splits)

subsection \<open>The listed states end in the state the operation returns\<close>

lemma AddGate_states_last:
  "AddGate_states gate w = (err, ws) \<Longrightarrow> AddGate gate w = (err, last (w # ws))"
  by (auto simp add: AddGate_states_def AddGate_def Let_def store_gate_def
        split: option.splits if_splits)

lemma AddProxy_states_last:
  "AddProxy_states env proxy w = (err, ws) \<Longrightarrow> AddProxy env proxy w = (err, last (w # ws))"
  unfolding AddProxy_states_def AddProxy_def
  by (auto split: option.splits prod.splits sum.splits dest!: AddGate_states_last)

lemma UpdateProxy_states_last:
  "UpdateProxy_states env proxy cfg w = (err, ws) \<Longrightarrow>
     UpdateProxy env proxy cfg w = (err, last (w # ws))"
  unfolding UpdateProxy_states_def UpdateProxy_def Let_def
  by (auto split: option.splits prod.splits if_splits dest!: AddProxy_states_last)

lemma AddProxy_states_keep:
  assumes "deref_proxy w proxy = Some P" and "fmlookup (gates w) (Proxy.listenTo P) = None"
    and "route_at w a h = Some p" and "a \<noteq> Proxy.listenTo P"
  shows "\<forall>s\<in>set (snd (AddProxy_states env proxy w)). route_at s a h = Some p"
  using assms
  by (auto simp add: AddProxy_states_def NewGate_def AddGate_states_def Gate_AddProxy_def
        route_at_def deref_gate_def deref_proxy_def store_gate_def Let_def nth_append
        nth_list_update split: option.splits if_splits)

lemma gates_validD:
  "gates_valid w \<Longrightarrow> fmlookup (gates w) a = Some g \<Longrightarrow> g < length (gate_heap w)"
  by (auto simp add: gates_valid_def dest: fmpredD)

lemma AddProxy_states_same:
  assumes "deref_proxy w proxy = Some P" and "fmlookup (gates w) (Proxy.listenTo P) = None"
    and "a \<noteq> Proxy.listenTo P"
    and "\<And>g. fmlookup (gates w) a = Some g \<Longrightarrow> g < length (gate_heap w)"
  shows "\<forall>s\<in>set (snd (AddProxy_states env proxy w)). route_at s a h = route_at w a h"
proof (cases "fmlookup (gates w) a")
  case None
  then show ?thesis
    using assms(1-3)
    by (auto simp add: AddProxy_states_def NewGate_def AddGate_states_def Gate_AddProxy_def
        route_at_def deref_gate_def deref_proxy_def store_gate_def Let_def
        split: option.splits if_splits)
next
  case (Some g)
  with assms(4) have "g < length (gate_heap w)" by simp
  with Some show ?thesis
    using assms(1-3)
    by (auto simp add: AddProxy_states_def NewGate_def AddGate_states_def Gate_AddProxy_def
        route_at_def deref_gate_def deref_proxy_def store_gate_def Let_def nth_append
        nth_list_update split: option.splits if_splits)
qed

section \<open>Adding and removing gates and proxies\<close>

text \<open>
  C6. \<open>AddGate\<close> with a gate whose address is already a key of the gateway's map fails with
  \<open>ErrGateSignatureAlreadyRegistered\<close> and changes nothing, neither the map nor the gate;
  with a fresh address it succeeds and the map holds the gate under its address.
\<close>

theorem C6_AddGate:
  assumes "deref_gate w gate = Some G"
  shows "(fmlookup (gates w) (Gate.listenTo G) \<noteq> None \<longrightarrow>
            AddGate gate w = (Some ErrGateSignatureAlreadyRegistered, w)) \<and>
         (fmlookup (gates w) (Gate.listenTo G) = None \<longrightarrow>
            (\<exists>w'. AddGate gate w = (None, w') \<and>
                  gates w' = fmupd (Gate.listenTo G) gate (gates w) \<and>
                  fmlookup (gates w') (Gate.listenTo G) = Some gate \<and>
                  map_option Gate.listenTo (deref_gate w' gate) = Some (Gate.listenTo G)))"
  using assms
  by (auto simp add: AddGate_def Let_def store_gate_def deref_gate_def
        Gate_AddLoggerOutput_def Gate_overrideLogger_def split: option.splits if_splits)

theorem C6_AddGate_witness:
  "deref_gate world_unregistered 0 = Some (gate_on '':25565'' (fmupd ''a.example.com'' 0 fmempty)) \<and>
   AddGate 0 world_unregistered = (Some ErrGateSignatureAlreadyRegistered, world_unregistered) \<and>
   deref_gate world_unregistered 1 = Some (gate_on '':25566'' fmempty) \<and>
   fmlookup (gates world_unregistered) '':25566'' = None \<and>
   fst (AddGate 1 world_unregistered) = None \<and>
   fmlookup (gates (snd (AddGate 1 world_unregistered))) '':25566'' = Some 1"
proof -
  have h0: "deref_gate world_unregistered 0 = Some (gate_on '':25565'' (fmupd ''a.example.com'' 0 fmempty))"
    by (simp add: world_unregistered_def world_a_def deref_gate_def)
  have h1: "deref_gate world_unregistered 1 = Some (gate_on '':25566'' fmempty)"
    by (simp add: world_unregistered_def world_a_def deref_gate_def)
  have l0: "fmlookup (gates world_unregistered) '':25565'' \<noteq> None"
    by (simp add: world_unregistered_def world_a_def)
  have l1: "fmlookup (gates world_unregistered) '':25566'' = None"
    by (simp add: world_unregistered_def world_a_def)
  have n: "\<And>ps. Gate.listenTo (gate_on '':25565'' ps) = '':25565''"
     "\<And>ps. Gate.listenTo (gate_on '':25566'' ps) = '':25566''"
    by (simp_all add: gate_on_def)
  show ?thesis
    using h0 h1 l0 l1 C6_AddGate [OF h0] C6_AddGate [OF h1] by (auto simp add: n)
qed

text \<open>
  C7. \<open>RemoveGate\<close> on an address with no registered gate, and \<open>RemoveProxy\<close> on an
  address with no registered gate, return no error and leave the gateway, every gate and
  every proxy as they were.
\<close>

theorem C7_remove_absent_noop:
  "fmlookup (gates w) addr = None \<Longrightarrow>
     RemoveGate addr w = (None, w) \<and> RemoveProxy addr name w = (None, w)"
  by (simp add: RemoveGate_def RemoveProxy_def)

theorem C7_remove_absent_noop_witness:
  "fmlookup (gates world_a) '':25566'' = None \<and>
   RemoveGate '':25566'' world_a = (None, world_a) \<and>
   RemoveProxy '':25566'' ''a.example.com'' world_a = (None, world_a)"
  using C7_remove_absent_noop [of world_a "'':25566''" "''a.example.com''"]
  by (simp add: world_a_def)

text \<open>
  C8. If no gate is registered for the proxy's address, a successful \<open>AddProxy\<close> creates
  exactly one new gate, registers it under that address with the proxy under its hostname
  as its only route, and the number of gates grows by exactly one. If a gate is registered
  for the address, \<open>AddProxy\<close> is that gate's \<open>AddProxy\<close> and the map of gates is unchanged.
\<close>

theorem C8_AddProxy:
  assumes "deref_proxy w proxy = Some P"
  shows "(fmlookup (gates w) (Proxy.listenTo P) = None \<longrightarrow>
           (\<forall>w'. AddProxy env proxy w = (None, w') \<longrightarrow>
              gates w' = fmupd (Proxy.listenTo P) (length (gate_heap w)) (gates w) \<and>
              fcard (fmdom (gates w')) = fcard (fmdom (gates w)) + 1 \<and>
              (\<exists>G. gate_heap w' = gate_heap w @ [G] \<and> Gate.listenTo G = Proxy.listenTo P \<and>
                   proxies G = fmupd (domainName P) proxy fmempty) \<and>
              route_at w' (Proxy.listenTo P) (domainName P) = Some proxy)) \<and>
         (\<forall>gate. fmlookup (gates w) (Proxy.listenTo P) = Some gate \<longrightarrow>
            AddProxy env proxy w = Gate_AddProxy gate proxy w \<and>
            gates (snd (AddProxy env proxy w)) = gates w)"
proof (intro conjI impI allI)
  fix gate assume "fmlookup (gates w) (Proxy.listenTo P) = Some gate"
  then show "AddProxy env proxy w = Gate_AddProxy gate proxy w"
    using assms by (simp add: AddProxy_def)
  then show "gates (snd (AddProxy env proxy w)) = gates w"
    by (simp add: Gate_AddProxy_def store_gate_def split: option.splits)
next
  fix w' assume n: "fmlookup (gates w) (Proxy.listenTo P) = None"
    and ok: "AddProxy env proxy w = (None, w')"
  from n have nd: "Proxy.listenTo P |\<notin>| fmdom (gates w)"
    by (simp add: fmdom_notI)
  have w': "w' = placed_in_new_gate proxy P w"
    using AddProxy_new_gate [OF assms n, of env] ok by (simp split: if_splits)
  show "gates w' = fmupd (Proxy.listenTo P) (length (gate_heap w)) (gates w)"
    by (simp add: w' placed_in_new_gate_def)
  show "fcard (fmdom (gates w')) = fcard (fmdom (gates w)) + 1"
    using nd by (simp add: w' placed_in_new_gate_def fcard_finsert_if)
  show "\<exists>G. gate_heap w' = gate_heap w @ [G] \<and> Gate.listenTo G = Proxy.listenTo P \<and>
          proxies G = fmupd (domainName P) proxy fmempty"
    by (simp add: w' placed_in_new_gate_def)
  show "route_at w' (Proxy.listenTo P) (domainName P) = Some proxy"
    by (simp add: w' route_at_placed_new)
qed

theorem C8_AddProxy_witness:
  "deref_proxy world_p 0 = Some proxy_a \<and>
   fmlookup (gates world_p) (Proxy.listenTo proxy_a) = None \<and>
   fst (AddProxy env0 0 world_p) = None \<and>
   fcard (fmdom (gates (snd (AddProxy env0 0 world_p)))) = fcard (fmdom (gates world_p)) + 1 \<and>
   route_at (snd (AddProxy env0 0 world_p)) '':25565'' ''a.example.com'' = Some 0 \<and>
   deref_proxy world_a 0 = Some proxy_a \<and>
   fmlookup (gates world_a) (Proxy.listenTo proxy_a) = Some 0 \<and>
   AddProxy env0 0 world_a = Gate_AddProxy 0 0 world_a \<and>
   gates (snd (AddProxy env0 0 world_a)) = gates world_a"
proof -
  have h1: "deref_proxy world_p 0 = Some proxy_a"
    by (simp add: world_p_def deref_proxy_def)
  have h2: "fmlookup (gates world_p) (Proxy.listenTo proxy_a) = None"
    by (simp add: world_p_def NewGateway_def)
  have h3: "fst (AddProxy env0 0 world_p) = None"
    by (simp add: world_p_def eval_defs)
  then have h4: "AddProxy env0 0 world_p = (None, snd (AddProxy env0 0 world_p))"
    by (metis prod.collapse)
  have k1: "deref_proxy world_a 0 = Some proxy_a"
    by (simp add: world_a_def deref_proxy_def)
  have k2: "fmlookup (gates world_a) (Proxy.listenTo proxy_a) = Some 0"
    by (simp add: world_a_def proxy_a_def)
  have nm: "Proxy.listenTo proxy_a = '':25565''" "domainName proxy_a = ''a.example.com''"
    by (simp_all add: proxy_a_def)
  note new = C8_AddProxy [OF h1, of env0, THEN conjunct1, rule_format, OF h2 h4]
  note old = C8_AddProxy [OF k1, of env0, THEN conjunct2, rule_format, OF k2]
  show ?thesis
    using h1 h2 h3 k1 k2 new [unfolded nm] old by blast
qed

section \<open>Serving and configuration changes\<close>

text \<open>
  C5, as amended. \<open>ListenAndServe\<close> on a gateway with no gates returns
  \<open>ErrNoGateInGateway\<close> without waiting, whatever the gates would do, and leaves the
  whole state, the running flag and the map of gates included, as it was; with at least
  one gate it returns no error. The claim as stated has the gateway not running
  afterwards for every state; the call does not touch the flag, so a gateway that is
  marked running and has lost all its gates is still marked running after the call.
\<close>

theorem C5_ListenAndServe_no_gates:
  "(fcard (fmdom (gates w)) = 0 \<longrightarrow>
      ListenAndServe serve_gates w = Some (Some ErrNoGateInGateway, w)) \<and>
   (fcard (fmdom (gates w)) \<noteq> 0 \<longrightarrow>
      (\<forall>err w'. ListenAndServe serve_gates w \<noteq> Some (Some err, w')))"
  by (simp add: ListenAndServe_def split: option.splits)

theorem C5_ListenAndServe_no_gates_witness:
  "fcard (fmdom (gates NewGateway)) = 0 \<and>
   ListenAndServe never_returns NewGateway = Some (Some ErrNoGateInGateway, NewGateway) \<and>
   \<not> running NewGateway \<and>
   fcard (fmdom (gates world_a)) \<noteq> 0 \<and>
   (\<forall>err w'. ListenAndServe never_returns world_a \<noteq> Some (Some err, w'))"
  using C5_ListenAndServe_no_gates [of NewGateway never_returns]
        C5_ListenAndServe_no_gates [of world_a never_returns]
  by (simp add: NewGateway_def world_a_def fcard_finsert_if)

theorem C5_running_counterexample:
  "fcard (fmdom (gates running_empty)) = 0 \<and>
   ListenAndServe never_returns running_empty = Some (Some ErrNoGateInGateway, running_empty) \<and>
   running running_empty"
  by (simp add: ListenAndServe_def running_empty_def NewGateway_def)

text \<open>
  C9. An event whose kind is not \<open>Write\<close> makes the change handler return at once: the
  state is unchanged whatever the configuration source would load, so neither
  \<open>LoadProxyConfig\<close> nor \<open>UpdateProxy\<close> has any effect.
\<close>

theorem C9_other_event_ignored:
  "Op ev \<noteq> Write \<Longrightarrow> onConfigChange env load proxy vpr ev w = (None, w)"
  by (simp add: onConfigChange_def)

theorem C9_other_event_ignored_witness:
  "Op removed_event \<noteq> Write \<and>
   onConfigChange env0 load_b 0 () removed_event world_a = (None, world_a)"
  using C9_other_event_ignored [of removed_event env0 load_b 0 "()" world_a]
  by (simp add: Write_def removed_event_def)

section \<open>Reconciliation: \<open>UpdateProxy\<close>\<close>

text \<open>
  C4. When the new address equals the proxy's address, \<open>UpdateProxy\<close> fails with
  \<open>ErrGateDoesNotExist\<close> if no gate is registered for that address, and otherwise is the
  gate's \<open>UpdateProxy\<close>; in both cases the gateway's map of gates is unchanged.
\<close>

theorem C4_same_address:
  assumes "deref_proxy w proxy = Some P" and "ListenTo cfg = Proxy.listenTo P"
  shows "(fmlookup (gates w) (Proxy.listenTo P) = None \<longrightarrow>
            UpdateProxy env proxy cfg w = (Some ErrGateDoesNotExist, w)) \<and>
         (\<forall>gate. fmlookup (gates w) (Proxy.listenTo P) = Some gate \<longrightarrow>
            UpdateProxy env proxy cfg w = Gate_UpdateProxy env gate proxy cfg w) \<and>
         gates (snd (UpdateProxy env proxy cfg w)) = gates w"
  using assms by (simp add: UpdateProxy_def gates_Gate_UpdateProxy split: option.splits)

theorem C4_same_address_witness:
  "deref_proxy world_a 0 = Some proxy_a \<and>
   ListenTo cfg_renamed = Proxy.listenTo proxy_a \<and>
   fmlookup (gates world_a) (Proxy.listenTo proxy_a) = Some 0 \<and>
   UpdateProxy env0 0 cfg_renamed world_a = Gate_UpdateProxy env0 0 0 cfg_renamed world_a \<and>
   gates (snd (UpdateProxy env0 0 cfg_renamed world_a)) = gates world_a \<and>
   deref_proxy world_p 0 = Some proxy_a \<and>
   ListenTo cfg_renamed = Proxy.listenTo proxy_a \<and>
   fmlookup (gates world_p) (Proxy.listenTo proxy_a) = None \<and>
   UpdateProxy env0 0 cfg_renamed world_p = (Some ErrGateDoesNotExist, world_p)"
proof -
  have h1: "deref_proxy world_a 0 = Some proxy_a"
    by (simp add: world_a_def deref_proxy_def)
  have h2: "ListenTo cfg_renamed = Proxy.listenTo proxy_a"
    by (simp add: cfg_renamed_def proxy_a_def)
  have h3: "fmlookup (gates world_a) (Proxy.listenTo proxy_a) = Some 0"
    by (simp add: world_a_def proxy_a_def)
  have k1: "deref_proxy world_p 0 = Some proxy_a"
    by (simp add: world_p_def deref_proxy_def)
  have k3: "fmlookup (gates world_p) (Proxy.listenTo proxy_a) = None"
    by (simp add: world_p_def NewGateway_def)
  show ?thesis
    using h1 h2 h3 k1 k3 C4_same_address [OF h1 h2, of env0] C4_same_address [OF k1 h2, of env0]
    by blast
qed

text \<open>
  C2. When the new address differs from the proxy's address and no gate exists for the new
  address, a successful \<open>UpdateProxy\<close> leaves a gate for the new address that maps the new
  hostname to the proxy, whose fields are those of the new configuration, and the gate of
  the former address does not map the old hostname. The new binding is added before the
  old one is removed: the states of the call are some states, then the state \<open>w2\<close> that
  \<open>AddProxy\<close> returns, then the final state, which is \<open>RemoveProxy\<close> on \<open>w2\<close>; in every
  state up to and including \<open>w2\<close> the old address and hostname lead where they led when
  the call started, and \<open>w2\<close> has the new binding. The gate pointers of the gateway's
  map point at gate objects.
\<close>

theorem C2_move_to_new_gate:
  assumes P: "deref_proxy w proxy = Some P"
    and diff: "ListenTo cfg \<noteq> Proxy.listenTo P"
    and nogate: "fmlookup (gates w) (ListenTo cfg) = None"
    and valid: "gates_valid w"
    and ok: "UpdateProxy env proxy cfg w = (None, w')"
  shows "route_at w' (ListenTo cfg) (DomainName cfg) = Some proxy \<and>
         route_at w' (Proxy.listenTo P) (domainName P) = None \<and>
         deref_proxy w' proxy = Some (P\<lparr>Proxy.listenTo := ListenTo cfg,
                                        domainName := DomainName cfg, config := cfg\<rparr>) \<and>
         (\<exists>w1 w2 ws.
            updateConfig env proxy cfg w = (None, w1) \<and>
            AddProxy env proxy w1 = (None, w2) \<and>
            RemoveProxy (Proxy.listenTo P) (domainName P) w2 = (None, w') \<and>
            UpdateProxy_states env proxy cfg w = (None, ws @ [w2, w']) \<and>
            (\<forall>s\<in>set (w # ws @ [w2]).
               route_at s (Proxy.listenTo P) (domainName P)
                 = route_at w (Proxy.listenTo P) (domainName P)) \<and>
            route_at w2 (ListenTo cfg) (DomainName cfg) = Some proxy)"
proof -
  let ?A = "Proxy.listenTo P" and ?H = "domainName P"
  let ?B = "ListenTo cfg" and ?H2 = "DomainName cfg"
  let ?P' = "new_identity cfg P"
  let ?w1 = "store_proxy proxy ?P' w"
  let ?w2 = "placed_in_new_gate proxy ?P' ?w1"
  have P': "deref_proxy ?w1 proxy = Some ?P'" using P by simp
  have id: "Proxy.listenTo ?P' = ?B" "domainName ?P' = ?H2"
    by (simp_all add: new_identity_def)
  have nogate1: "fmlookup (gates ?w1) (Proxy.listenTo ?P') = None"
    using nogate by (simp add: id)
  from ok P diff nogate have cv: "config_valid env cfg"
    by (auto simp add: UpdateProxy_def updateConfig_cases split: if_splits)
  have u: "updateConfig env proxy cfg w = (None, ?w1)"
    using P cv by (simp add: updateConfig_cases)
  from ok P diff nogate u have addr: "address_valid env ?B"
    by (auto simp add: UpdateProxy_def AddProxy_new_gate [OF P' nogate1] id split: if_splits)
  have a: "AddProxy env proxy ?w1 = (None, ?w2)"
    using addr by (simp add: AddProxy_new_gate [OF P' nogate1] id)
  have r: "RemoveProxy ?A ?H ?w2 = (None, w')"
    using ok P diff nogate u a by (simp add: UpdateProxy_def)
  have new2: "route_at ?w2 ?B ?H2 = Some proxy"
    using route_at_placed_new [of proxy ?P' ?w1] by (simp add: id)
  have live: "\<And>g. fmlookup (gates ?w1) ?A = Some g \<Longrightarrow> g < length (gate_heap ?w1)"
    using gates_validD [OF valid] by simp
  have gA2: "fmlookup (gates ?w2) ?A = fmlookup (gates w) ?A"
            "fmlookup (gates ?w2) ?B = Some (length (gate_heap w))"
    using diff by (simp_all add: placed_in_new_gate_def id)
  have w': "w' = snd (RemoveProxy ?A ?H ?w2)" using r by simp
  have new': "route_at w' ?B ?H2 = Some proxy"
    using gA2 new2 gates_validD [OF valid, of ?A]
    by (simp only: w' route_at_RemoveProxy) auto
  have old': "route_at w' ?A ?H = None"
    by (cases "fmlookup (gates ?w2) ?A")
       (simp_all add: w' route_at_RemoveProxy, simp add: route_at_def)
  have px: "deref_proxy w' proxy = Some ?P'"
    using P' r
    by (auto simp add: RemoveProxy_def Gate_RemoveProxy_def store_gate_def deref_proxy_def
          placed_in_new_gate_def split: option.splits if_splits)
  obtain err ws where tr: "AddProxy_states env proxy ?w1 = (err, ws)"
    by (cases "AddProxy_states env proxy ?w1")
  have last2: "err = None" "last (?w1 # ws) = ?w2"
    using AddProxy_states_last [OF tr] a by simp_all
  have same: "\<forall>s\<in>set ws. route_at s ?A ?H = route_at w ?A ?H"
    using AddProxy_states_same [OF P' nogate1 _ live, of ?A env ?H] diff tr by (simp add: id)
  have split: "?w1 # ws = butlast (?w1 # ws) @ [?w2]"
    using last2(2) append_butlast_last_id [of "?w1 # ws"] by simp
  have sts: "UpdateProxy_states env proxy cfg w = (None, butlast (?w1 # ws) @ [?w2, w'])"
  proof -
    have "UpdateProxy_states env proxy cfg w = (None, (?w1 # ws) @ [w'])"
      using P diff nogate u tr last2 r
      by (simp add: UpdateProxy_states_def Let_def)
    then show ?thesis by (subst (asm) split) simp
  qed
  have "set (w # butlast (?w1 # ws) @ [?w2]) = set (w # ?w1 # ws)"
    using split by (metis)
  then have all: "\<forall>s\<in>set (w # butlast (?w1 # ws) @ [?w2]). route_at s ?A ?H = route_at w ?A ?H"
    using same by simp
  show ?thesis
    using new' old' px u a r sts all new2 unfolding new_identity_def by blast
qed

theorem C2_move_to_new_gate_witness:
  "deref_proxy world_a 0 = Some proxy_a \<and>
   ListenTo cfg_moved \<noteq> Proxy.listenTo proxy_a \<and>
   fmlookup (gates world_a) (ListenTo cfg_moved) = None \<and>
   gates_valid world_a \<and>
   fst (UpdateProxy env0 0 cfg_moved world_a) = None \<and>
   route_at (snd (UpdateProxy env0 0 cfg_moved world_a)) '':25566'' ''a.example.com'' = Some 0 \<and>
   route_at (snd (UpdateProxy env0 0 cfg_moved world_a)) '':25565'' ''a.example.com'' = None \<and>
   length (snd (UpdateProxy_states env0 0 cfg_moved world_a)) = 7 \<and>
   route_at (snd (UpdateProxy_states env0 0 cfg_moved world_a) ! 5)
      '':25566'' ''a.example.com'' = Some 0 \<and>
   route_at (snd (UpdateProxy_states env0 0 cfg_moved world_a) ! 5)
      '':25565'' ''a.example.com'' = Some 0 \<and>
   snd (UpdateProxy_states env0 0 cfg_moved world_a) ! 6
      = snd (UpdateProxy env0 0 cfg_moved world_a)"
proof -
  let ?w' = "snd (UpdateProxy env0 0 cfg_moved world_a)"
  let ?T = "snd (UpdateProxy_states env0 0 cfg_moved world_a)"
  have h1: "deref_proxy world_a 0 = Some proxy_a"
    by (simp add: world_a_def deref_proxy_def)
  have h2: "ListenTo cfg_moved \<noteq> Proxy.listenTo proxy_a"
    by (simp add: cfg_moved_def proxy_a_def)
  have h3: "fmlookup (gates world_a) (ListenTo cfg_moved) = None"
    by (simp add: world_a_def cfg_moved_def)
  have h4: "gates_valid world_a"
    by (simp add: gates_valid_def world_a_def fmpred_upd)
  have h5: "fst (UpdateProxy env0 0 cfg_moved world_a) = None"
    by (simp add: eval_defs)
  then have h6: "UpdateProxy env0 0 cfg_moved world_a = (None, ?w')"
    by (metis prod.collapse)
  have len: "length ?T = 7"
    by (simp add: eval_defs UpdateProxy_states_def AddProxy_states_def AddGate_states_def)
  have old0: "route_at world_a '':25565'' ''a.example.com'' = Some 0"
    by (simp add: world_a_def route_at_def deref_gate_def gate_on_def)
  have nm: "ListenTo cfg_moved = '':25566''" "DomainName cfg_moved = ''a.example.com''"
      "Proxy.listenTo proxy_a = '':25565''" "domainName proxy_a = ''a.example.com''"
    by (simp_all add: cfg_moved_def proxy_a_def)
  note res = C2_move_to_new_gate [OF h1 h2 h3 h4 h6, unfolded nm]
  from res obtain w2 ws where
      T: "UpdateProxy_states env0 0 cfg_moved world_a = (None, ws @ [w2, ?w'])"
    and keep: "\<forall>s\<in>set (world_a # ws @ [w2]).
                 route_at s '':25565'' ''a.example.com''
                   = route_at world_a '':25565'' ''a.example.com''"
    and new2: "route_at w2 '':25566'' ''a.example.com'' = Some 0"
    by blast
  have Teq: "?T = ws @ [w2, ?w']" using T by simp
  have lws: "length ws = 5" using len by (simp add: Teq)
  have n5: "?T ! 5 = w2" and n6: "?T ! 6 = ?w'"
    using lws by (simp_all add: Teq nth_append)
  have old2: "route_at w2 '':25565'' ''a.example.com'' = Some 0"
    using keep old0 by simp
  show ?thesis
    using h1 h2 h3 h4 h5 len res new2 old2 by (simp only: n5 n6) blast
qed

text \<open>
  C1. When the new address differs from the proxy's address and a gate for the new address
  already exists, \<open>UpdateProxy\<close> is to remove the old binding from the old gate, so that
  afterwards the gate on the former address no longer maps the old hostname and the target
  gate maps the new hostname to the proxy. Lines 240-251 call \<open>RemoveProxy\<close> on the target
  gate instead. In the example, the proxy \<open>a.example.com\<close> moves from \<open>:25565\<close> to the
  existing gate on \<open>:25566\<close>: the call returns no error, the gate on \<open>:25565\<close> still maps
  \<open>a.example.com\<close> to the proxy, the gate on \<open>:25566\<close> does not map it, and the proxy
  reports \<open>:25566\<close> as its address.
\<close>

theorem C1_existing_target_keeps_old_binding:
  "fst (UpdateProxy env0 0 cfg_moved world_ab) = None \<and>
   route_at (snd (UpdateProxy env0 0 cfg_moved world_ab)) '':25565'' ''a.example.com'' = Some 0 \<and>
   route_at (snd (UpdateProxy env0 0 cfg_moved world_ab)) '':25566'' ''a.example.com'' = None \<and>
   map_option Proxy.listenTo (deref_proxy (snd (UpdateProxy env0 0 cfg_moved world_ab)) 0) = Some '':25566''"
  by (simp add: eval_defs)

text \<open>
  C3, as amended. For every \<open>UpdateProxy\<close> that changes the address of a proxy that is
  registered under its address and hostname when the call starts, every state the call
  visits, the first and the last included, has the proxy reachable under its old address
  and hostname or under its new ones. The claim as stated has this for every call.
  \<open>UpdateProxy\<close> takes the old binding from the proxy's own fields and does not check
  that the proxy is registered there: after the move of C1 the proxy reports \<open>:25566\<close>
  and is registered on \<open>:25565\<close> only, and its next move, to \<open>:25567\<close>, succeeds and
  starts with the proxy under neither \<open>:25566\<close> nor \<open>:25567\<close>.
\<close>

theorem C3_never_unreachable:
  assumes P: "deref_proxy w proxy = Some P"
    and diff: "ListenTo cfg \<noteq> Proxy.listenTo P"
    and old: "route_at w (Proxy.listenTo P) (domainName P) = Some proxy"
  shows "(\<forall>s\<in>set (w # snd (UpdateProxy_states env proxy cfg w)).
            route_at s (Proxy.listenTo P) (domainName P) = Some proxy \<or>
            route_at s (ListenTo cfg) (DomainName cfg) = Some proxy) \<and>
         (route_at (snd (UpdateProxy env proxy cfg w)) (Proxy.listenTo P) (domainName P) = Some proxy \<or>
          route_at (snd (UpdateProxy env proxy cfg w)) (ListenTo cfg) (DomainName cfg) = Some proxy)"
proof -
  let ?A = "Proxy.listenTo P" and ?H = "domainName P"
  let ?B = "ListenTo cfg" and ?H2 = "DomainName cfg"
  let ?P' = "new_identity cfg P"
  let ?w1 = "store_proxy proxy ?P' w"
  let ?ok = "\<lambda>s. route_at s ?A ?H = Some proxy \<or> route_at s ?B ?H2 = Some proxy"
  have P': "deref_proxy ?w1 proxy = Some ?P'" using P by simp
  have id: "Proxy.listenTo ?P' = ?B" "domainName ?P' = ?H2"
    by (simp_all add: new_identity_def)
  have old1: "route_at ?w1 ?A ?H = Some proxy" using old by simp
  have states: "\<forall>s\<in>set (snd (UpdateProxy_states env proxy cfg w)). ?ok s"
  proof (cases "config_valid env cfg")
    case False
    then show ?thesis
      using P diff old
      by (auto simp add: UpdateProxy_states_def updateConfig_cases Let_def split: option.splits)
  next
    case valid: True
    show ?thesis
    proof (cases "fmlookup (gates w) ?B")
      case None
      then have nogate1: "fmlookup (gates ?w1) (Proxy.listenTo ?P') = None"
        by (simp add: id)
      obtain err ws where tr: "AddProxy_states env proxy ?w1 = (err, ws)"
        by (cases "AddProxy_states env proxy ?w1")
      have keep: "\<forall>s\<in>set ws. route_at s ?A ?H = Some proxy"
        using AddProxy_states_keep [OF P' nogate1 old1, of env] diff tr by (simp add: id)
      show ?thesis
      proof (cases err)
        case (Some e)
        then show ?thesis
          using P diff None valid tr keep old1
          by (simp add: UpdateProxy_states_def updateConfig_cases Let_def)
      next
        case noerr: None
        let ?w2 = "last (?w1 # ws)"
        have a: "AddProxy env proxy ?w1 = (None, ?w2)"
          using AddProxy_states_last [OF tr] noerr by simp
        then have w2: "?w2 = placed_in_new_gate proxy ?P' ?w1"
          using AddProxy_new_gate [OF P' nogate1, of env] by (simp split: if_splits)
        from old obtain gA where gA: "fmlookup (gates w) ?A = Some gA"
            and lt: "gA < length (gate_heap w)"
          by (auto simp add: route_at_def deref_gate_def split: option.splits if_splits)
        have new2: "route_at ?w2 ?B ?H2 = Some proxy"
          using route_at_placed_new [of proxy ?P' ?w1] by (simp only: w2 id)
        have g2: "fmlookup (gates ?w2) ?A = Some gA"
                 "fmlookup (gates ?w2) ?B = Some (length (gate_heap w))"
          using gA diff by (simp_all only: w2) (simp_all add: placed_in_new_gate_def id)
        have new3: "route_at (snd (RemoveProxy ?A ?H ?w2)) ?B ?H2 = Some proxy"
          using g2 lt new2 by (simp only: route_at_RemoveProxy) simp
        have sts: "snd (UpdateProxy_states env proxy cfg w)
                     = ?w1 # ws @ [snd (RemoveProxy ?A ?H ?w2)]"
          using P diff None valid tr noerr
          by (simp add: UpdateProxy_states_def updateConfig_cases Let_def split: prod.splits)
        show ?thesis
          using keep old1 new3 by (simp only: sts) auto
      qed
    next
      case (Some gate)
      obtain e2 w2 where a: "Gate_AddProxy gate proxy ?w1 = (e2, w2)"
        by (cases "Gate_AddProxy gate proxy ?w1")
      have old2: "route_at w2 ?A ?H = Some proxy"
        using route_at_Gate_AddProxy_kept [OF old1, of gate proxy] a by simp
      show ?thesis
      proof (cases e2)
        case (Some e)
        then show ?thesis
          using P diff \<open>fmlookup (gates w) ?B = Some gate\<close> valid a old1 old2
          by (simp add: UpdateProxy_states_def updateConfig_cases Let_def)
      next
        case None
        have new2: "route_at w2 ?B ?H2 = Some proxy"
          using route_at_Gate_AddProxy [OF a [unfolded None] P', of ?B ?H2]
            \<open>fmlookup (gates w) ?B = Some gate\<close> by (simp add: id)
        have gs: "gates w2 = gates w"
          using a by (auto simp add: Gate_AddProxy_def store_gate_def split: option.splits)
        let ?w3 = "snd (Gate_RemoveProxy gate ?H w2)"
        have ok3: "?ok ?w3"
        proof (cases "?H2 = ?H")
          case False
          then show ?thesis using new2 by (simp add: route_at_Gate_RemoveProxy)
        next
          case True
          have "fmlookup (gates w) ?A \<noteq> Some gate"
          proof
            assume same: "fmlookup (gates w) ?A = Some gate"
            with old1 have "route_at ?w1 ?B ?H2 = Some proxy \<or> route_at ?w1 ?B ?H = Some proxy"
              using \<open>fmlookup (gates w) ?B = Some gate\<close>
              by (simp add: route_at_def)
            with True a None P' \<open>fmlookup (gates w) ?B = Some gate\<close> show False
              by (auto simp add: Gate_AddProxy_def route_at_def id split: option.splits)
          qed
          then show ?thesis using old2 gs by (simp add: route_at_Gate_RemoveProxy)
        qed
        have sts: "snd (UpdateProxy_states env proxy cfg w) = [?w1, w2, ?w3]"
          using P diff \<open>fmlookup (gates w) ?B = Some gate\<close> valid a None
          by (simp add: UpdateProxy_states_def updateConfig_cases Let_def split: prod.splits)
        show ?thesis
          using old1 old2 ok3 by (simp only: sts) auto
      qed
    qed
  qed
  obtain err ws where tr: "UpdateProxy_states env proxy cfg w = (err, ws)"
    by (cases "UpdateProxy_states env proxy cfg w")
  have fin: "snd (UpdateProxy env proxy cfg w) = last (w # ws)"
    using UpdateProxy_states_last [OF tr] by simp
  have "?ok (last (w # ws))"
    using states old tr by (cases ws rule: rev_cases) auto
  then show ?thesis
    using states old by (simp add: fin)
qed

theorem C3_never_unreachable_witness:
  "deref_proxy world_ab 0 = Some proxy_a \<and>
   ListenTo cfg_moved \<noteq> Proxy.listenTo proxy_a \<and>
   route_at world_ab (Proxy.listenTo proxy_a) (domainName proxy_a) = Some 0 \<and>
   length (snd (UpdateProxy_states env0 0 cfg_moved world_ab)) = 3 \<and>
   (route_at (snd (UpdateProxy_states env0 0 cfg_moved world_ab) ! 0)
       '':25565'' ''a.example.com'' = Some 0 \<or>
    route_at (snd (UpdateProxy_states env0 0 cfg_moved world_ab) ! 0)
       '':25566'' ''a.example.com'' = Some 0) \<and>
   (route_at (snd (UpdateProxy_states env0 0 cfg_moved world_ab) ! 1)
       '':25565'' ''a.example.com'' = Some 0 \<or>
    route_at (snd (UpdateProxy_states env0 0 cfg_moved world_ab) ! 1)
       '':25566'' ''a.example.com'' = Some 0) \<and>
   (route_at (snd (UpdateProxy_states env0 0 cfg_moved world_ab) ! 2)
       '':25565'' ''a.example.com'' = Some 0 \<or>
    route_at (snd (UpdateProxy_states env0 0 cfg_moved world_ab) ! 2)
       '':25566'' ''a.example.com'' = Some 0) \<and>
   (route_at (snd (UpdateProxy env0 0 cfg_moved world_ab)) '':25565'' ''a.example.com'' = Some 0 \<or>
    route_at (snd (UpdateProxy env0 0 cfg_moved world_ab)) '':25566'' ''a.example.com'' = Some 0)"
proof -
  let ?ws = "snd (UpdateProxy_states env0 0 cfg_moved world_ab)"
  have h1: "deref_proxy world_ab 0 = Some proxy_a"
    by (simp add: world_ab_def deref_proxy_def)
  have h2: "ListenTo cfg_moved \<noteq> Proxy.listenTo proxy_a"
    by (simp add: cfg_moved_def proxy_a_def)
  have h3: "route_at world_ab (Proxy.listenTo proxy_a) (domainName proxy_a) = Some 0"
    by (simp add: world_ab_def route_at_def deref_gate_def gate_on_def proxy_a_def)
  have h4: "length ?ws = 3"
    by (simp add: UpdateProxy_states_def eval_defs)
  have nm: "ListenTo cfg_moved = '':25566''" "DomainName cfg_moved = ''a.example.com''"
      "Proxy.listenTo proxy_a = '':25565''" "domainName proxy_a = ''a.example.com''"
    by (simp_all add: cfg_moved_def proxy_a_def)
  have m: "?ws ! 0 \<in> set (world_ab # ?ws)" "?ws ! 1 \<in> set (world_ab # ?ws)"
      "?ws ! 2 \<in> set (world_ab # ?ws)"
    using h4 by (simp_all add: nth_mem)
  note all = C3_never_unreachable [OF h1 h2 h3, of env0, unfolded nm]
  show ?thesis
    using h1 h2 h3 h4 m all by blast
qed

theorem C3_unregistered_counterexample:
  "UpdateProxy env0 0 cfg_moved world_ab = (None, world_stale) \<and>
   map_option Proxy.listenTo (deref_proxy world_stale 0) = Some '':25566'' \<and>
   map_option domainName (deref_proxy world_stale 0) = Some ''a.example.com'' \<and>
   ListenTo cfg_third = '':25567'' \<and>
   DomainName cfg_third = ''a.example.com'' \<and>
   fst (UpdateProxy env0 0 cfg_third world_stale) = None \<and>
   route_at world_stale '':25566'' ''a.example.com'' = None \<and>
   route_at world_stale '':25567'' ''a.example.com'' = None \<and>
   length (snd (UpdateProxy_states env0 0 cfg_third world_stale)) = 7 \<and>
   route_at (snd (UpdateProxy_states env0 0 cfg_third world_stale) ! 0)
      '':25566'' ''a.example.com'' = None \<and>
   route_at (snd (UpdateProxy_states env0 0 cfg_third world_stale) ! 0)
      '':25567'' ''a.example.com'' = None"
  by (simp add: eval_defs world_stale_def cfg_third_def UpdateProxy_states_def fmdrop_fmupd_same
        AddProxy_states_def AddGate_states_def)



end
